theory Spec2Isabelle
  imports Main "HOL-Library.Word" "HOL-Library.Signed_Division"
begin

unbundle bit_operations_syntax

section \<open>Machine types and constants of nzxt\_grid.c\<close>

text \<open>
  The driver is C for the Linux kernel. \<open>uint8_t\<close> is an 8-bit word, \<open>u32\<close> and
  \<open>int\<close> are 32-bit words, \<open>long\<close> is a 64-bit word (LP64) read as two's complement
  with \<open>sint\<close>. Return codes of functions (0 or a negative errno) are kept as
  mathematical integers: the driver only compares and forwards them.
\<close>

type_synonym u8 = "8 word"
type_synonym u32 = "32 word"
type_synonym c_int = "32 word"
type_synonym long = "64 word"

definition NZXT_GRID_MAX_CHANNELS :: nat where
  "NZXT_GRID_MAX_CHANNELS = 6"

definition nzxt_grid_report_id_command :: u8 where
  "nzxt_grid_report_id_command = 2"

definition nzxt_grid_report_id_status :: u8 where
  "nzxt_grid_report_id_status = 4"

definition NZXT_GRID_OUTPUT_REPORT_SIZE :: nat where
  "NZXT_GRID_OUTPUT_REPORT_SIZE = 65"

text \<open>
  The errno numbers come from the kernel headers, which are not part of the
  repository; the driver only ever returns them negated.
\<close>

definition EINVAL :: int where
  "EINVAL = 22"

definition ENOMEM :: int where
  "ENOMEM = 12"

section \<open>Wire codec\<close>

subsection \<open>The status report\<close>

text \<open>
  \<open>struct nzxt_grid_status_report\<close> is packed, so its fields lie at consecutive
  offsets with no padding. A \<open>__be16\<close> field is kept as its two bytes in memory
  order; \<open>be16_to_cpup\<close> reads them most significant byte first.
\<close>

record nzxt_grid_status_report =
  report_id :: u8
  unknown1 :: "u8 list"
  rpm :: "u8 \<times> u8"
  unknown2 :: "u8 list"
  in_volt :: u8
  in_centivolt :: u8
  curr_amp :: u8
  curr_centiamp :: u8
  firmware_version_major :: u8
  firmware_version_minor :: "u8 \<times> u8"
  firmware_version_patch :: u8
  channel_index_and_fan_type :: u8
  unknown4 :: "u8 list"

text \<open>\<open>sizeof(struct nzxt_grid_status_report)\<close>: the sum of the field sizes.\<close>

definition sizeof_status_report :: nat where
  "sizeof_status_report = 1 + 2 + 2 + 2 + 1 + 1 + 1 + 1 + 1 + 2 + 1 + 1 + 5"

text \<open>
  The cast \<open>status_report = (void *)data\<close> of \<open>nzxt_grid_raw_event\<close>: each field is
  the bytes of the buffer at the field's offset. It is only used on a buffer of
  \<open>sizeof_status_report\<close> bytes.
\<close>

definition status_report_at :: "u8 list \<Rightarrow> nzxt_grid_status_report" where
  "status_report_at data =
     \<lparr> nzxt_grid_status_report.report_id = data ! 0,
       nzxt_grid_status_report.unknown1 = [data ! 1, data ! 2],
       rpm = (data ! 3, data ! 4),
       unknown2 = [data ! 5, data ! 6],
       in_volt = data ! 7,
       in_centivolt = data ! 8,
       curr_amp = data ! 9,
       curr_centiamp = data ! 10,
       firmware_version_major = data ! 11,
       firmware_version_minor = (data ! 12, data ! 13),
       firmware_version_patch = data ! 14,
       channel_index_and_fan_type = data ! 15,
       unknown4 = [data ! 16, data ! 17, data ! 18, data ! 19, data ! 20] \<rparr>"

definition be16_to_cpup :: "u8 \<times> u8 \<Rightarrow> 16 word" where
  "be16_to_cpup p = push_bit 8 (ucast (fst p)) OR ucast (snd p)"

definition nzxt_grid_get_channel_index :: "nzxt_grid_status_report \<Rightarrow> u8" where
  "nzxt_grid_get_channel_index report = drop_bit 4 (channel_index_and_fan_type report)"

definition nzxt_grid_get_fan_type :: "nzxt_grid_status_report \<Rightarrow> u8" where
  "nzxt_grid_get_fan_type report = channel_index_and_fan_type report AND 0x3"

subsection \<open>Channel status and the device\<close>

datatype nzxt_grid_fan_type = nzxt_grid_fan_none | nzxt_grid_fan_dc | nzxt_grid_fan_pwm

text \<open>The values of the enumerators, with which the \<open>switch\<close> below compares.\<close>

fun fan_type_value :: "nzxt_grid_fan_type \<Rightarrow> u8" where
  "fan_type_value nzxt_grid_fan_none = 0"
| "fan_type_value nzxt_grid_fan_dc = 1"
| "fan_type_value nzxt_grid_fan_pwm = 2"

record nzxt_grid_channel_status =
  type :: nzxt_grid_fan_type
  speed_rpm :: long
  in_millivolt :: long
  curr_milliamp :: long

text \<open>
  \<open>struct nzxt_grid_device\<close>: the \<open>hid\<close> and \<open>hwmon\<close> handles and the six-slot channel
  array. The lock is not modelled: every function below runs to completion on
  its own.
\<close>

record nzxt_grid_device =
  hid :: nat
  hwmon :: int
  channel :: "nzxt_grid_channel_status list"

text \<open>The device as \<open>devm_kzalloc\<close> leaves it: every byte zero.\<close>

definition zero_channel_status :: nzxt_grid_channel_status where
  "zero_channel_status =
     \<lparr> type = nzxt_grid_fan_none, speed_rpm = 0, in_millivolt = 0, curr_milliamp = 0 \<rparr>"

definition zero_device :: nzxt_grid_device where
  "zero_device =
     \<lparr> hid = 0, hwmon = 0, channel = replicate NZXT_GRID_MAX_CHANNELS zero_channel_status \<rparr>"

subsection \<open>Receiving a status report\<close>

text \<open>
  The \<open>switch (fan_type)\<close> of \<open>nzxt_grid_raw_event\<close>: the labels
  \<open>nzxt_grid_fan_dc\<close> and \<open>nzxt_grid_fan_pwm\<close> store the value cast to the enum,
  \<open>default\<close> stores \<open>nzxt_grid_fan_none\<close>.
\<close>

definition switch_fan_type :: "u8 \<Rightarrow> nzxt_grid_fan_type" where
  "switch_fan_type fan_type =
     (if fan_type = fan_type_value nzxt_grid_fan_dc then nzxt_grid_fan_dc
      else if fan_type = fan_type_value nzxt_grid_fan_pwm then nzxt_grid_fan_pwm
      else nzxt_grid_fan_none)"

text \<open>
  The four assignments through \<open>channel_status\<close> under the write lock. The bytes are
  promoted to \<open>long\<close> before they are multiplied by \<open>1000L\<close> and \<open>10L\<close>.
\<close>

definition store_status ::
  "nzxt_grid_status_report \<Rightarrow> u8 \<Rightarrow> nzxt_grid_channel_status \<Rightarrow> nzxt_grid_channel_status"
where
  "store_status status_report fan_type channel_status =
     channel_status
       \<lparr> type := switch_fan_type fan_type,
         speed_rpm := ucast (be16_to_cpup (rpm status_report)),
         in_millivolt := ucast (in_volt status_report) * 1000
                         + ucast (in_centivolt status_report) * 10,
         curr_milliamp := ucast (curr_amp status_report) * 1000
                          + ucast (curr_centiamp status_report) * 10 \<rparr>"

text \<open>
  \<open>nzxt_grid_raw_event\<close>: \<open>data\<close> is the buffer and its length is the \<open>size\<close>
  argument. The result is the return code and the device afterwards.
\<close>

definition nzxt_grid_raw_event :: "nzxt_grid_device \<Rightarrow> u8 list \<Rightarrow> int \<times> nzxt_grid_device" where
  "nzxt_grid_raw_event grid data =
     (if length data \<noteq> sizeof_status_report then (0, grid)
      else
        let status_report = status_report_at data;
            channel_index = nzxt_grid_get_channel_index status_report;
            fan_type = nzxt_grid_get_fan_type status_report
        in if unat channel_index \<ge> NZXT_GRID_MAX_CHANNELS then (0, grid)
           else (0, grid \<lparr> channel := (channel grid)
                   [unat channel_index :=
                      store_status status_report fan_type (channel grid ! unat channel_index)] \<rparr>))"

subsection \<open>Duty mapping\<close>

text \<open>
  \<open>nzxt_grid_pwm_to_percent\<close>: the comparisons are signed; the product and the
  quotient are \<open>long\<close> arithmetic, the division truncating towards zero; the result
  is cut to eight bits.
\<close>

definition long_sdiv :: "long \<Rightarrow> long \<Rightarrow> long" where
  "long_sdiv a b = word_of_int (sint a sdiv sint b)"

definition nzxt_grid_pwm_to_percent :: "long \<Rightarrow> u8" where
  "nzxt_grid_pwm_to_percent hwmon_value =
     (if hwmon_value <s 0 then 0
      else if 255 \<le>s hwmon_value then 100
      else ucast (long_sdiv (hwmon_value * 100) 255))"

section \<open>The kernel around the driver\<close>

text \<open>
  The driver calls into the HID transport, the allocator and the sensor
  framework. Each such call is recorded, in order, with the arguments that matter
  here; what the kernel returns is not decided by the driver, so it is read from
  \<open>answer\<close>, a function of the position of the call. Calls that return nothing
  ignore it. A pointer is read as a \<open>long\<close>; \<open>NULL\<close> is 0.
\<close>

datatype call =
    Devm_kzalloc
  | Hid_parse
  | Hid_hw_start
  | Hid_hw_open
  | Hid_device_io_start
  | Kzalloc nat
  | Hid_hw_output_report "u8 list"
  | Kfree
  | Hwmon_device_register_with_info nat
  | Hid_hw_close
  | Hid_hw_stop

record kernel =
  calls :: "call list"
  answer :: "nat \<Rightarrow> int"

definition call_kernel :: "call \<Rightarrow> kernel \<Rightarrow> int \<times> kernel" where
  "call_kernel c k = (answer k (length (calls k)), k \<lparr> calls := calls k @ [c] \<rparr>)"

text \<open>
  \<open>IS_ERR\<close> and \<open>PTR_ERR\<close> of the kernel's \<open>linux/err.h\<close>, which is not part of the
  repository: a pointer in the last 4095 addresses carries a negated errno, the
  pointer's value as a \<open>long\<close>.
\<close>

definition IS_ERR :: "int \<Rightarrow> bool" where
  "IS_ERR ptr \<longleftrightarrow> - 4095 \<le> ptr \<and> ptr < 0"

definition PTR_ERR :: "int \<Rightarrow> int" where
  "PTR_ERR ptr = ptr"

section \<open>Output reports\<close>

record nzxt_grid_command_output_report =
  report_id :: u8
  command :: u8

definition nzxt_grid_command_detect_fans :: u8 where
  "nzxt_grid_command_detect_fans = 0x5c"

definition nzxt_grid_command_start_reporting :: u8 where
  "nzxt_grid_command_start_reporting = 0x5d"

definition nzxt_grid_command_set_fan_speed :: u8 where
  "nzxt_grid_command_set_fan_speed = 0x4d"

record nzxt_grid_command_set_fan_speed_output_report =
  report_id :: u8
  command :: u8
  channel_index :: u8
  unknown1 :: u8
  fan_speed_percent :: u8

text \<open>Both structs are packed: their bytes in memory are their fields in order.\<close>

definition command_output_report_bytes :: "nzxt_grid_command_output_report \<Rightarrow> u8 list" where
  "command_output_report_bytes report =
     [nzxt_grid_command_output_report.report_id report,
      nzxt_grid_command_output_report.command report]"

definition set_fan_speed_output_report_bytes ::
  "nzxt_grid_command_set_fan_speed_output_report \<Rightarrow> u8 list"
where
  "set_fan_speed_output_report_bytes report =
     [nzxt_grid_command_set_fan_speed_output_report.report_id report,
      nzxt_grid_command_set_fan_speed_output_report.command report,
      channel_index report,
      nzxt_grid_command_set_fan_speed_output_report.unknown1 report,
      fan_speed_percent report]"

definition sizeof_command_output_report :: nat where
  "sizeof_command_output_report = 1 + 1"

definition sizeof_set_fan_speed_output_report :: nat where
  "sizeof_set_fan_speed_output_report = 1 + 1 + 1 + 1 + 1"

text \<open>\<open>memcpy(dest, src, n)\<close> on buffers that hold at least \<open>n\<close> bytes each.\<close>

definition memcpy :: "u8 list \<Rightarrow> u8 list \<Rightarrow> nat \<Rightarrow> u8 list" where
  "memcpy dest src n = take n src @ drop n dest"

text \<open>
  \<open>nzxt_grid_send_output_report\<close>: \<open>kzalloc\<close> gives a zeroed buffer or \<open>NULL\<close>; the
  buffer is handed to \<open>hid_hw_output_report\<close> with the fixed size and freed.
\<close>

definition nzxt_grid_send_output_report ::
  "nzxt_grid_device \<Rightarrow> u8 list \<Rightarrow> nat \<Rightarrow> kernel \<Rightarrow> int \<times> kernel"
where
  "nzxt_grid_send_output_report grid data sz k =
     (let (buffer, k1) = call_kernel (Kzalloc NZXT_GRID_OUTPUT_REPORT_SIZE) k
      in if buffer = 0 then (- ENOMEM, k1)
         else
           let contents = memcpy (replicate NZXT_GRID_OUTPUT_REPORT_SIZE 0) data sz;
               (ret, k2) = call_kernel (Hid_hw_output_report contents) k1;
               (freed, k3) = call_kernel Kfree k2
           in (if ret < 0 then ret else 0, k3))"

section \<open>The sensor callbacks\<close>

text \<open>
  \<open>enum hwmon_sensor_types\<close> is declared in the kernel's \<open>linux/hwmon.h\<close>. The
  attribute numbers \<open>hwmon_fan_input\<close>, \<open>hwmon_pwm_input\<close>, \<open>hwmon_pwm_mode\<close>,
  \<open>hwmon_in_input\<close> and \<open>hwmon_curr_input\<close> are declared there too, in one enum per
  sensor type; their values are not fixed by the repository, so the callbacks
  take them as a parameter.
\<close>

datatype hwmon_sensor_types =
    hwmon_chip | hwmon_temp | hwmon_in | hwmon_curr | hwmon_power | hwmon_energy
  | hwmon_humidity | hwmon_fan | hwmon_pwm | hwmon_intrusion

record hwmon_attributes =
  hwmon_fan_input :: u32
  hwmon_pwm_input :: u32
  hwmon_pwm_mode :: u32
  hwmon_in_input :: u32
  hwmon_curr_input :: u32

text \<open>
  \<open>&grid->channel[channel]\<close>: the slot the pointer designates, \<open>None\<close> when the
  index lies outside the array, where reading through the pointer is undefined.
\<close>

definition channel_slot :: "nzxt_grid_device \<Rightarrow> c_int \<Rightarrow> nzxt_grid_channel_status option" where
  "channel_slot grid ch =
     (if 0 \<le> sint ch \<and> nat (sint ch) < length (channel grid)
      then Some (channel grid ! nat (sint ch)) else None)"

text \<open>
  A read returns \<open>Inr v\<close> for return code 0 with \<open>*val = v\<close>, \<open>Inl e\<close> for the
  return code \<open>e\<close> with \<open>*val\<close> untouched, and \<open>None\<close> where it reads through a
  pointer outside the channel array.
\<close>

definition nzxt_grid_hwmon_read_fan ::
  "hwmon_attributes \<Rightarrow> nzxt_grid_channel_status option \<Rightarrow> u32 \<Rightarrow> (int + long) option"
where
  "nzxt_grid_hwmon_read_fan hw channel_status attr =
     (if attr = hwmon_fan_input hw
      then map_option (\<lambda>s. Inr (speed_rpm s)) channel_status
      else Some (Inl (- EINVAL)))"

definition nzxt_grid_hwmon_read_pwm ::
  "hwmon_attributes \<Rightarrow> nzxt_grid_channel_status option \<Rightarrow> u32 \<Rightarrow> (int + long) option"
where
  "nzxt_grid_hwmon_read_pwm hw channel_status attr =
     (if attr = hwmon_pwm_mode hw
      then map_option (\<lambda>s. Inr (if type s = nzxt_grid_fan_pwm then 1 else 0)) channel_status
      else Some (Inl (- EINVAL)))"

definition nzxt_grid_hwmon_read_in ::
  "hwmon_attributes \<Rightarrow> nzxt_grid_channel_status option \<Rightarrow> u32 \<Rightarrow> (int + long) option"
where
  "nzxt_grid_hwmon_read_in hw channel_status attr =
     (if attr = hwmon_in_input hw
      then map_option (\<lambda>s. Inr (in_millivolt s)) channel_status
      else Some (Inl (- EINVAL)))"

definition nzxt_grid_hwmon_read_curr ::
  "hwmon_attributes \<Rightarrow> nzxt_grid_channel_status option \<Rightarrow> u32 \<Rightarrow> (int + long) option"
where
  "nzxt_grid_hwmon_read_curr hw channel_status attr =
     (if attr = hwmon_curr_input hw
      then map_option (\<lambda>s. Inr (curr_milliamp s)) channel_status
      else Some (Inl (- EINVAL)))"

fun nzxt_grid_hwmon_read ::
  "hwmon_attributes \<Rightarrow> nzxt_grid_device \<Rightarrow> hwmon_sensor_types \<Rightarrow> u32 \<Rightarrow> c_int
   \<Rightarrow> (int + long) option"
where
  "nzxt_grid_hwmon_read hw grid hwmon_fan attr ch =
     nzxt_grid_hwmon_read_fan hw (channel_slot grid ch) attr"
| "nzxt_grid_hwmon_read hw grid hwmon_pwm attr ch =
     nzxt_grid_hwmon_read_pwm hw (channel_slot grid ch) attr"
| "nzxt_grid_hwmon_read hw grid hwmon_in attr ch =
     nzxt_grid_hwmon_read_in hw (channel_slot grid ch) attr"
| "nzxt_grid_hwmon_read hw grid hwmon_curr attr ch =
     nzxt_grid_hwmon_read_curr hw (channel_slot grid ch) attr"
| "nzxt_grid_hwmon_read hw grid other attr ch = Some (Inl (- EINVAL))"

definition nzxt_grid_hwmon_write_pwm_input ::
  "nzxt_grid_device \<Rightarrow> c_int \<Rightarrow> long \<Rightarrow> kernel \<Rightarrow> int \<times> kernel"
where
  "nzxt_grid_hwmon_write_pwm_input grid ch val k =
     (let report =
            \<lparr> nzxt_grid_command_set_fan_speed_output_report.report_id =
                nzxt_grid_report_id_command,
              nzxt_grid_command_set_fan_speed_output_report.command =
                nzxt_grid_command_set_fan_speed,
              channel_index = ucast ch,
              nzxt_grid_command_set_fan_speed_output_report.unknown1 = 0,
              fan_speed_percent = nzxt_grid_pwm_to_percent val \<rparr>
      in nzxt_grid_send_output_report grid (set_fan_speed_output_report_bytes report)
           sizeof_set_fan_speed_output_report k)"

definition nzxt_grid_hwmon_write_pwm ::
  "hwmon_attributes \<Rightarrow> nzxt_grid_device \<Rightarrow> u32 \<Rightarrow> c_int \<Rightarrow> long \<Rightarrow> kernel \<Rightarrow> int \<times> kernel"
where
  "nzxt_grid_hwmon_write_pwm hw grid attr ch val k =
     (if attr = hwmon_pwm_input hw then nzxt_grid_hwmon_write_pwm_input grid ch val k
      else (- EINVAL, k))"

fun nzxt_grid_hwmon_write ::
  "hwmon_attributes \<Rightarrow> nzxt_grid_device \<Rightarrow> hwmon_sensor_types \<Rightarrow> u32 \<Rightarrow> c_int \<Rightarrow> long
   \<Rightarrow> kernel \<Rightarrow> int \<times> kernel"
where
  "nzxt_grid_hwmon_write hw grid hwmon_pwm attr ch val k =
     nzxt_grid_hwmon_write_pwm hw grid attr ch val k"
| "nzxt_grid_hwmon_write hw grid other attr ch val k = (- EINVAL, k)"

section \<open>Attaching the device\<close>

definition nzxt_grid_detect_fans :: "nzxt_grid_device \<Rightarrow> kernel \<Rightarrow> int \<times> kernel" where
  "nzxt_grid_detect_fans grid k =
     (let report =
            \<lparr> nzxt_grid_command_output_report.report_id = nzxt_grid_report_id_command,
              nzxt_grid_command_output_report.command = nzxt_grid_command_detect_fans \<rparr>
      in nzxt_grid_send_output_report grid (command_output_report_bytes report)
           sizeof_command_output_report k)"

definition nzxt_grid_start_reporting :: "nzxt_grid_device \<Rightarrow> kernel \<Rightarrow> int \<times> kernel" where
  "nzxt_grid_start_reporting grid k =
     (let report =
            \<lparr> nzxt_grid_command_output_report.report_id = nzxt_grid_report_id_command,
              nzxt_grid_command_output_report.command = nzxt_grid_command_start_reporting \<rparr>
      in nzxt_grid_send_output_report grid (command_output_report_bytes report)
           sizeof_command_output_report k)"

text \<open>The two exit labels of \<open>nzxt_grid_probe\<close>; \<open>out_hw_close\<close> falls through.\<close>

definition out_hw_stop :: "int \<Rightarrow> kernel \<Rightarrow> int \<times> kernel" where
  "out_hw_stop ret k = (let (stopped, k1) = call_kernel Hid_hw_stop k in (ret, k1))"

definition out_hw_close :: "int \<Rightarrow> kernel \<Rightarrow> int \<times> kernel" where
  "out_hw_close ret k = (let (closed, k1) = call_kernel Hid_hw_close k in out_hw_stop ret k1)"

text \<open>
  \<open>nzxt_grid_probe\<close>: \<open>hdev\<close> is the HID device, \<open>driver_data\<close> the index of the
  matched entry's chip description. The device memory comes zeroed from
  \<open>devm_kzalloc\<close>; the result is the return code, the device memory as the probe
  leaves it (\<open>None\<close> when it was not allocated) and the kernel afterwards.
\<close>

definition nzxt_grid_probe ::
  "nat \<Rightarrow> nat \<Rightarrow> kernel \<Rightarrow> int \<times> nzxt_grid_device option \<times> kernel"
where
  "nzxt_grid_probe hdev driver_data k =
     (let (mem, k1) = call_kernel Devm_kzalloc k
      in if mem = 0 then (- ENOMEM, None, k1)
      else
        let grid = zero_device \<lparr> hid := hdev \<rparr>;
            (ret, k2) = call_kernel Hid_parse k1
        in if ret \<noteq> 0 then (ret, Some grid, k2)
        else
          let (ret, k3) = call_kernel Hid_hw_start k2
          in if ret \<noteq> 0 then (ret, Some grid, k3)
          else
            let (ret, k4) = call_kernel Hid_hw_open k3
            in if ret \<noteq> 0 then (let (r, k') = out_hw_stop ret k4 in (r, Some grid, k'))
            else
              let (started, k5) = call_kernel Hid_device_io_start k4;
                  (ret, k6) = nzxt_grid_detect_fans grid k5
              in if ret \<noteq> 0 then (let (r, k') = out_hw_close ret k6 in (r, Some grid, k'))
              else
                let (ret, k7) = nzxt_grid_start_reporting grid k6
                in if ret \<noteq> 0 then (let (r, k') = out_hw_close ret k7 in (r, Some grid, k'))
                else
                  let (ptr, k8) = call_kernel (Hwmon_device_register_with_info driver_data) k7;
                      grid' = grid \<lparr> hwmon := ptr \<rparr>
                  in if IS_ERR ptr
                     then (let (r, k') = out_hw_close (PTR_ERR ptr) k8 in (r, Some grid', k'))
                     else (0, Some grid', k8))"

text \<open>
  \<open>nzxt_grid_reports\<close>, the driver's \<open>report_table\<close>, without the terminating
  empty entry: its one entry is the status report id. The HID core that reads
  the table is not part of the repository and is not modelled.
\<close>

definition nzxt_grid_reports :: "u8 list" where
  "nzxt_grid_reports = [nzxt_grid_report_id_status]"

text \<open>
  The handshake in the order the specification gives it, as the calls of an attach
  in which every step succeeds: allocate, parse, start, open, begin I/O, the
  detect-fans command, the start-reporting command, registration. This list
  follows the specification, not the code; \<open>nzxt_grid_probe\<close> is compared with it
  below.
\<close>

definition spec_handshake_calls :: "nat \<Rightarrow> call list" where
  "spec_handshake_calls driver_data =
     [Devm_kzalloc, Hid_parse, Hid_hw_start, Hid_hw_open, Hid_device_io_start,
      Kzalloc 65, Hid_hw_output_report ([0x02, 0x5C] @ replicate 63 0), Kfree,
      Kzalloc 65, Hid_hw_output_report ([0x02, 0x5D] @ replicate 63 0), Kfree,
      Hwmon_device_register_with_info driver_data]"

section \<open>Example inputs\<close>

text \<open>
  A status report with the measurements 1500 rpm, 12.10 V and 1.50 A, its first
  byte and its packed byte left open; the attribute numbers of a current kernel;
  a kernel whose calls all succeed and one that fails the detect-fans report; the
  device after the example report for channel 1.
\<close>

definition example_report :: "u8 \<Rightarrow> u8 \<Rightarrow> u8 list" where
  "example_report first packed =
     [first, 0x00, 0x00, 0x05, 0xDC, 0x00, 0x00, 0x0C, 0x0A, 0x01, 0x32,
      0, 0, 0, 0, packed, 0, 0, 0, 0, 0]"

definition example_attributes :: hwmon_attributes where
  "example_attributes =
     \<lparr> hwmon_fan_input = 1, hwmon_pwm_input = 0, hwmon_pwm_mode = 2,
       hwmon_in_input = 1, hwmon_curr_input = 1 \<rparr>"

definition probe_success_answer :: "nat \<Rightarrow> int" where
  "probe_success_answer n = (if n \<in> {1, 2, 3} then 0 else if n \<in> {6, 9} then 65 else 4096)"

definition fresh_kernel :: "(nat \<Rightarrow> int) \<Rightarrow> kernel" where
  "fresh_kernel a = \<lparr> calls = [], answer = a \<rparr>"

definition example_device :: nzxt_grid_device where
  "example_device = snd (nzxt_grid_raw_event zero_device (example_report 4 0x12))"

definition detect_fails_answer :: "nat \<Rightarrow> int" where
  "detect_fails_answer n = (if n = 6 then - 5 else probe_success_answer n)"

section \<open>Properties of the duty mapping\<close>

lemma sint_times_100:
  assumes "0 \<le> sint (v :: long)" "sint v < 255"
  shows "sint (v * 100) = sint v * 100"
proof -
  have "sint (v * 100) = signed_take_bit 63 (sint v * 100)"
    by (simp add: sint_word_ariths)
  also have "\<dots> = sint v * 100"
    using assms by (intro signed_take_bit_int_eq_self) auto
  finally show ?thesis .
qed

lemma uint_ucast_small:
  assumes "0 \<le> q" "q < 256"
  shows "uint (ucast (word_of_int q :: long) :: u8) = q"
proof -
  have a: "uint (word_of_int q :: long) = q"
    using assms by (simp add: uint_word_of_int take_bit_int_eq_self)
  have "uint (ucast (word_of_int q :: long) :: u8) = take_bit 8 (uint (word_of_int q :: long))"
    by (simp add: unsigned_ucast_eq)
  also have "\<dots> = q" unfolding a using assms by (simp add: take_bit_int_eq_self)
  finally show ?thesis .
qed

lemma percent_mid:
  assumes "0 \<le> sint (v :: long)" "sint v < 255"
  shows "uint (nzxt_grid_pwm_to_percent v) = (sint v * 100) div 255"
proof -
  define q where "q = (sint v * 100) div 255"
  have q: "0 \<le> q" "q < 256" using assms by (auto simp: q_def)
  have sd: "sint (v * 100) sdiv sint (255 :: long) = q"
    using assms by (simp add: sint_times_100 signed_divide_int_def sgn_if q_def)
  have "nzxt_grid_pwm_to_percent v = ucast (word_of_int q :: long)"
    using assms sd by (simp add: nzxt_grid_pwm_to_percent_def long_sdiv_def word_sless_alt word_sle_eq)
  then show ?thesis using uint_ucast_small [OF q] by (simp add: q_def)
qed

lemma percent_uint:
  "uint (nzxt_grid_pwm_to_percent v) =
     (if sint v < 0 then 0 else if 255 \<le> sint v then 100 else (sint v * 100) div 255)"
proof -
  consider "sint v < 0" | "255 \<le> sint v" | "0 \<le> sint v" "sint v < 255" by linarith
  then show ?thesis
  proof cases
    case 1 then show ?thesis by (simp add: nzxt_grid_pwm_to_percent_def word_sless_alt)
  next
    case 2 then show ?thesis by (simp add: nzxt_grid_pwm_to_percent_def word_sless_alt word_sle_eq)
  next
    case 3 then show ?thesis using percent_mid [of v] by simp
  qed
qed

lemma percent_mono:
  assumes "sint v \<le> sint w"
  shows "uint (nzxt_grid_pwm_to_percent v) \<le> uint (nzxt_grid_pwm_to_percent w)"
proof -
  have a: "0 \<le> x \<Longrightarrow> 0 \<le> (x * 100) div 255" for x :: int by simp
  have b: "x < 255 \<Longrightarrow> (x * 100) div 255 \<le> 100" for x :: int by simp
  have c: "x \<le> y \<Longrightarrow> (x * 100) div 255 \<le> (y * 100) div 255" for x y :: int
    by (intro zdiv_mono1) auto
  show ?thesis
    unfolding percent_uint using assms a [of "sint w"] b [of "sint v"] c [of "sint v" "sint w"]
    by (auto simp del: div_mult_self1 div_mult_self2)
qed

text \<open>
  Claim C2. For every \<open>long\<close> input \<open>v\<close>, read as a signed integer, the duty lies
  in 0..100; it is 0 for \<open>v \<le> 0\<close> and 100 for \<open>v \<ge> 255\<close>; for \<open>0 < v < 255\<close> it is
  \<open>v * 100 / 255\<close> truncated towards zero; and it does not decrease when \<open>v\<close> grows.
\<close>

theorem pwm_to_percent_clamps:
  "uint (nzxt_grid_pwm_to_percent v) \<in> {0..100}
   \<and> (sint v \<le> 0 \<longrightarrow> nzxt_grid_pwm_to_percent v = 0)
   \<and> (255 \<le> sint v \<longrightarrow> nzxt_grid_pwm_to_percent v = 100)
   \<and> (0 < sint v \<and> sint v < 255 \<longrightarrow>
        uint (nzxt_grid_pwm_to_percent v) = (sint v * 100) sdiv 255)
   \<and> (sint v \<le> sint w \<longrightarrow> nzxt_grid_pwm_to_percent v \<le> nzxt_grid_pwm_to_percent w)"
proof -
  have r: "uint (nzxt_grid_pwm_to_percent v) \<in> {0..100}"
  proof -
    have "0 \<le> x \<Longrightarrow> x < 255 \<Longrightarrow> (x * 100) div 255 \<le> 100" for x :: int by simp
    then show ?thesis unfolding percent_uint by auto
  qed
  have z: "nzxt_grid_pwm_to_percent v = 0" if "sint v \<le> 0"
  proof -
    have "uint (nzxt_grid_pwm_to_percent v) = 0"
      unfolding percent_uint using that by auto
    then show ?thesis by (simp add: uint_0_iff)
  qed
  have h: "nzxt_grid_pwm_to_percent v = 100" if "255 \<le> sint v"
    using that by (simp add: nzxt_grid_pwm_to_percent_def word_sless_alt word_sle_eq)
  have m: "uint (nzxt_grid_pwm_to_percent v) = (sint v * 100) sdiv 255"
    if "0 < sint v" "sint v < 255"
    using that by (simp add: percent_uint signed_divide_int_def sgn_if)
  have mono: "nzxt_grid_pwm_to_percent v \<le> nzxt_grid_pwm_to_percent w" if "sint v \<le> sint w"
    using percent_mono [OF that] by (simp add: word_le_def)
  from r z h m mono show ?thesis by blast
qed

text \<open>The duty at -1, 1000 and 128, and the order between 128 and 200.\<close>

theorem pwm_to_percent_clamps_witness:
  "nzxt_grid_pwm_to_percent (- 1) = 0
   \<and> nzxt_grid_pwm_to_percent 1000 = 100
   \<and> uint (nzxt_grid_pwm_to_percent 128) = 50
   \<and> nzxt_grid_pwm_to_percent 128 \<le> nzxt_grid_pwm_to_percent 200"
  using pwm_to_percent_clamps [of "- 1" 0] pwm_to_percent_clamps [of 1000 1000]
    pwm_to_percent_clamps [of 128 200]
  by (simp add: signed_divide_int_def)

section \<open>Properties of the status report codec\<close>

lemma uint_u8_bound: "uint (b :: u8) < 256"
  using uint_bounded [of b] by simp

lemma uint_ucast_u8_long: "uint (ucast (b :: u8) :: long) = uint b"
  by (rule uint_up_ucast) (simp add: is_up)

lemma uint_ucast_u8_16: "uint (ucast (b :: u8) :: 16 word) = uint b"
  by (rule uint_up_ucast) (simp add: is_up)

lemma uint_ucast_16_long: "uint (ucast (b :: 16 word) :: long) = uint b"
  by (rule uint_up_ucast) (simp add: is_up)

lemma sint_long_small:
  assumes "0 \<le> uint (w :: long)" "uint w < 2 ^ 63"
  shows "sint w = uint w"
proof -
  have "- (2 ^ 63) \<le> (0 :: int)" by simp
  also have "0 \<le> uint w" by simp
  finally have "- (2 ^ 63) \<le> uint w" .
  then show ?thesis
    unfolding sint_uint using assms(2) by (simp add: signed_take_bit_int_eq_self)
qed

lemma uint_be16:
  "uint (be16_to_cpup (h, l)) = 256 * uint h + uint l"
proof -
  define s where "s = uint h * 256 + uint l"
  have bound: "0 \<le> s" "s < 2 ^ 16"
    using uint_u8_bound [of h] uint_u8_bound [of l] by (auto simp: s_def)
  have "be16_to_cpup (h, l) = (word_cat h l :: 16 word)"
    unfolding word_cat_eq_push_bit_or by (simp add: be16_to_cpup_def)
  also have "\<dots> = ucast h * 256 + ucast l"
    by (simp add: word_cat_eq push_bit_eq_mult)
  finally have "uint (be16_to_cpup (h, l)) = s mod 2 ^ 16"
    by (simp add: uint_word_ariths uint_ucast_u8_16 mod_simps s_def)
  also have "\<dots> = s" using bound by simp
  finally show ?thesis by (simp add: s_def)
qed

lemma sint_ucast_rpm:
  "sint (ucast (w :: 16 word) :: long) = uint w"
proof -
  have "uint w < 2 ^ 16" using uint_bounded [of w] by simp
  then have "uint w < 2 ^ 63" by simp
  then show ?thesis
    using sint_long_small [of "ucast w"] by (simp add: uint_ucast_16_long)
qed

lemma sint_scaled_sum:
  "sint (ucast (a :: u8) * 1000 + ucast (b :: u8) * 10 :: long) = uint a * 1000 + uint b * 10"
proof -
  define s where "s = uint a * 1000 + uint b * 10"
  have bound: "0 \<le> s" "s < 2 ^ 63" "s < 2 ^ 64"
    using uint_u8_bound [of a] uint_u8_bound [of b] by (auto simp: s_def)
  have "uint (ucast a * 1000 + ucast b * 10 :: long) = s mod 2 ^ 64"
    by (simp add: uint_word_ariths uint_ucast_u8_long mod_simps s_def)
  also have "\<dots> = s"
    using bound by simp
  finally have u: "uint (ucast a * 1000 + ucast b * 10 :: long) = s" .
  show ?thesis
    using sint_long_small [of "ucast a * 1000 + ucast b * 10"] bound unfolding u s_def by simp
qed

lemma unat_fan_bits: "unat (b AND 3 :: u8) = unat b mod 4"
proof -
  have "b AND 3 = b AND mask 2"
    by (simp add: mask_eq_exp_minus_1)
  also have "\<dots> = take_bit 2 b" by (simp add: take_bit_eq_mask)
  finally have "unat (b AND 3) = unat (take_bit 2 b)" by simp
  also have "\<dots> = unat b mod 4"
    by (simp add: unsigned_take_bit_eq take_bit_eq_mod unat_mod)
  finally show ?thesis .
qed

lemma switch_fan_type_bits:
  "switch_fan_type (b AND 3) =
     (if unat b mod 4 = 1 then nzxt_grid_fan_dc
      else if unat b mod 4 = 2 then nzxt_grid_fan_pwm
      else nzxt_grid_fan_none)"
proof -
  have "(b AND 3 = 1) = (unat (b AND 3) = 1)" "(b AND 3 = 2) = (unat (b AND 3) = 2)"
    by (simp_all add: word_eq_iff_unsigned [where ?'a = nat])
  then show ?thesis by (simp add: switch_fan_type_def unat_fan_bits)
qed

lemma sizeof_status_report_21: "sizeof_status_report = 21"
  by (simp add: sizeof_status_report_def)

text \<open>
  Claim C1. For every buffer of 21 bytes, the status report read from it has the
  channel index byte 15 shifted right by four, the fan type byte 15 masked with
  \<open>0x03\<close>, stored as dc for 1, pwm for 2 and none for 0 and 3; the stored
  \<open>speed_rpm\<close> is the big-endian 16-bit value at offset 3, \<open>in_millivolt\<close> is
  byte 7 times 1000 plus byte 8 times 10, and \<open>curr_milliamp\<close> is byte 9 times 1000
  plus byte 10 times 10, none of them wrapping in a \<open>long\<close>.
\<close>

theorem status_report_decoding:
  assumes "length data = 21"
  shows "(let report = status_report_at data;
              update = store_status report (nzxt_grid_get_fan_type report) channel_status
          in nzxt_grid_get_channel_index report = drop_bit 4 (data ! 15)
           \<and> unat (nzxt_grid_get_channel_index report) = unat (data ! 15) div 16
           \<and> nzxt_grid_get_fan_type report = data ! 15 AND 0x03
           \<and> type update =
               (if unat (data ! 15) mod 4 = 1 then nzxt_grid_fan_dc
                else if unat (data ! 15) mod 4 = 2 then nzxt_grid_fan_pwm
                else nzxt_grid_fan_none)
           \<and> sint (speed_rpm update) = 256 * uint (data ! 3) + uint (data ! 4)
           \<and> sint (in_millivolt update) = uint (data ! 7) * 1000 + uint (data ! 8) * 10
           \<and> sint (curr_milliamp update) = uint (data ! 9) * 1000 + uint (data ! 10) * 10)"
proof -
  let ?r = "status_report_at data"
  let ?u = "store_status ?r (nzxt_grid_get_fan_type ?r) channel_status"
  have idx: "nzxt_grid_get_channel_index ?r = drop_bit 4 (data ! 15)"
    by (simp add: nzxt_grid_get_channel_index_def status_report_at_def)
  have idx_nat: "unat (nzxt_grid_get_channel_index ?r) = unat (data ! 15) div 16"
    unfolding idx by (simp add: unat_drop_bit_eq drop_bit_eq_div unat_div)
  have ft: "nzxt_grid_get_fan_type ?r = data ! 15 AND 0x03"
    by (simp add: nzxt_grid_get_fan_type_def status_report_at_def)
  have ty: "type ?u =
               (if unat (data ! 15) mod 4 = 1 then nzxt_grid_fan_dc
                else if unat (data ! 15) mod 4 = 2 then nzxt_grid_fan_pwm
                else nzxt_grid_fan_none)"
    unfolding ft by (simp add: store_status_def switch_fan_type_bits)
  have rpm: "sint (speed_rpm ?u) = 256 * uint (data ! 3) + uint (data ! 4)"
    by (simp add: store_status_def status_report_at_def sint_ucast_rpm uint_be16)
  have mv: "sint (in_millivolt ?u) = uint (data ! 7) * 1000 + uint (data ! 8) * 10"
    by (simp add: store_status_def status_report_at_def sint_scaled_sum)
  have ma: "sint (curr_milliamp ?u) = uint (data ! 9) * 1000 + uint (data ! 10) * 10"
    by (simp add: store_status_def status_report_at_def sint_scaled_sum)
  from idx idx_nat ft ty rpm mv ma show ?thesis
    unfolding Let_def by blast
qed

text \<open>The report of 1500 rpm, 12.10 V, 1.50 A for channel 1 with a pwm fan.\<close>

theorem status_report_decoding_witness:
  "length (example_report 4 0x12) = 21
   \<and> (let report = status_report_at (example_report 4 0x12);
           update = store_status report (nzxt_grid_get_fan_type report) zero_channel_status
       in unat (nzxt_grid_get_channel_index report) = 1
        \<and> type update = nzxt_grid_fan_pwm
        \<and> sint (speed_rpm update) = 1500
        \<and> sint (in_millivolt update) = 12100
        \<and> sint (curr_milliamp update) = 1500)"
proof -
  have len: "length (example_report 4 0x12) = 21"
    by (simp add: example_report_def)
  show ?thesis
    using len status_report_decoding [OF len, of zero_channel_status]
    by (auto simp: Let_def example_report_def)
qed

section \<open>Properties of the receive path\<close>

lemma raw_event_wrong_size:
  "length data \<noteq> 21 \<Longrightarrow> nzxt_grid_raw_event grid data = (0, grid)"
  by (simp add: nzxt_grid_raw_event_def sizeof_status_report_21)

lemma raw_event_bad_index:
  "6 \<le> unat (nzxt_grid_get_channel_index (status_report_at data)) \<Longrightarrow>
   nzxt_grid_raw_event grid data = (0, grid)"
  by (simp add: nzxt_grid_raw_event_def Let_def NZXT_GRID_MAX_CHANNELS_def)

lemma raw_event_apply:
  assumes "length data = 21"
    and "unat (nzxt_grid_get_channel_index (status_report_at data)) < 6"
  shows "nzxt_grid_raw_event grid data =
     (0, grid \<lparr> channel := (channel grid)
        [unat (nzxt_grid_get_channel_index (status_report_at data)) :=
           store_status (status_report_at data) (nzxt_grid_get_fan_type (status_report_at data))
             (channel grid ! unat (nzxt_grid_get_channel_index (status_report_at data)))] \<rparr>)"
  using assms
  by (simp add: nzxt_grid_raw_event_def Let_def NZXT_GRID_MAX_CHANNELS_def sizeof_status_report_21)

lemma store_status_overwrites:
  "store_status report fan_type channel_status =
     \<lparr> type = switch_fan_type fan_type,
       speed_rpm = ucast (be16_to_cpup (rpm report)),
       in_millivolt = ucast (in_volt report) * 1000 + ucast (in_centivolt report) * 10,
       curr_milliamp = ucast (curr_amp report) * 1000 + ucast (curr_centiamp report) * 10 \<rparr>"
  by (simp add: store_status_def)

text \<open>
  Claim C4. A buffer whose length is not 21, and a buffer of 21 bytes whose channel
  index is 6 or more, leave the device as it was; the return code is 0.
\<close>

theorem raw_event_drops_malformed:
  assumes "length data \<noteq> 21
           \<or> (length data = 21 \<and> 6 \<le> unat (nzxt_grid_get_channel_index (status_report_at data)))"
  shows "nzxt_grid_raw_event grid data = (0, grid)"
  using assms raw_event_wrong_size raw_event_bad_index by blast

text \<open>A report for channel 6, a buffer of 20 bytes and one of 22 bytes.\<close>

theorem raw_event_drops_malformed_witness:
  "length (example_report 4 0x62) = 21
   \<and> unat (nzxt_grid_get_channel_index (status_report_at (example_report 4 0x62))) = 6
   \<and> nzxt_grid_raw_event zero_device (example_report 4 0x62) = (0, zero_device)
   \<and> nzxt_grid_raw_event zero_device (take 20 (example_report 4 0x12)) = (0, zero_device)
   \<and> nzxt_grid_raw_event zero_device (example_report 4 0x12 @ [0]) = (0, zero_device)"
proof -
  have a: "length (example_report 4 0x62) = 21"
    by (simp add: example_report_def)
  have b: "unat (nzxt_grid_get_channel_index (status_report_at (example_report 4 0x62))) = 6"
    by (simp add: example_report_def status_report_at_def nzxt_grid_get_channel_index_def)
  have c: "length (take 20 (example_report 4 0x12)) \<noteq> 21"
    by (simp add: example_report_def)
  have d: "length (example_report 4 0x12 @ [0]) \<noteq> 21"
    by (simp add: example_report_def)
  show ?thesis
    using a b raw_event_drops_malformed [of "example_report 4 0x62" zero_device]
      raw_event_drops_malformed [of "take 20 (example_report 4 0x12)" zero_device, OF disjI1 [OF c]]
      raw_event_drops_malformed [of "example_report 4 0x12 @ [0]" zero_device, OF disjI1 [OF d]]
    by simp
qed

text \<open>
  Claim C5. A buffer of 21 bytes with channel index \<open>c < 6\<close> sets entry \<open>c\<close> of the
  channel array to the update read from the buffer, whatever the entry held
  before, and leaves every other entry and the two handles as they were.
\<close>

theorem raw_event_updates_one_entry:
  assumes "length data = 21"
    and "c = unat (nzxt_grid_get_channel_index (status_report_at data))"
    and "c < 6"
    and "length (channel grid) = 6"
  shows "fst (nzxt_grid_raw_event grid data) = 0
   \<and> length (channel (snd (nzxt_grid_raw_event grid data))) = 6
   \<and> channel (snd (nzxt_grid_raw_event grid data)) ! c =
        \<lparr> type = switch_fan_type (data ! 15 AND 0x3),
          speed_rpm = ucast (be16_to_cpup (data ! 3, data ! 4)),
          in_millivolt = ucast (data ! 7) * 1000 + ucast (data ! 8) * 10,
          curr_milliamp = ucast (data ! 9) * 1000 + ucast (data ! 10) * 10 \<rparr>
   \<and> channel (snd (nzxt_grid_raw_event grid data)) ! c =
        store_status (status_report_at data) (nzxt_grid_get_fan_type (status_report_at data))
          any_status
   \<and> (\<forall>i. i \<noteq> c \<longrightarrow>
          channel (snd (nzxt_grid_raw_event grid data)) ! i = channel grid ! i)
   \<and> hid (snd (nzxt_grid_raw_event grid data)) = hid grid
   \<and> hwmon (snd (nzxt_grid_raw_event grid data)) = hwmon grid"
proof -
  have ev: "nzxt_grid_raw_event grid data =
     (0, grid \<lparr> channel := (channel grid)
        [c := store_status (status_report_at data) (nzxt_grid_get_fan_type (status_report_at data))
             (channel grid ! c)] \<rparr>)"
    using raw_event_apply [of data grid] assms(1-3) by simp
  have fields: "store_status (status_report_at data) (nzxt_grid_get_fan_type (status_report_at data)) x =
        \<lparr> type = switch_fan_type (data ! 15 AND 0x3),
          speed_rpm = ucast (be16_to_cpup (data ! 3, data ! 4)),
          in_millivolt = ucast (data ! 7) * 1000 + ucast (data ! 8) * 10,
          curr_milliamp = ucast (data ! 9) * 1000 + ucast (data ! 10) * 10 \<rparr>" for x
    unfolding store_status_overwrites
    by (simp add: status_report_at_def nzxt_grid_get_fan_type_def)
  have at_c: "channel (snd (nzxt_grid_raw_event grid data)) ! c =
      store_status (status_report_at data) (nzxt_grid_get_fan_type (status_report_at data))
        (channel grid ! c)"
    unfolding ev using assms(3,4) by simp
  have others: "channel (snd (nzxt_grid_raw_event grid data)) ! i = channel grid ! i"
    if "i \<noteq> c" for i
    unfolding ev using that by simp
  show ?thesis
    using at_c others fields [of "channel grid ! c"] fields [of any_status] assms(4)
    by (simp add: ev)
qed

text \<open>The report for channel 1 on the zeroed device; channel 0 stays zero.\<close>

theorem raw_event_updates_one_entry_witness:
  "length (example_report 4 0x12) = 21
   \<and> unat (nzxt_grid_get_channel_index (status_report_at (example_report 4 0x12))) = 1
   \<and> length (channel zero_device) = 6
   \<and> fst (nzxt_grid_raw_event zero_device (example_report 4 0x12)) = 0
   \<and> channel (snd (nzxt_grid_raw_event zero_device (example_report 4 0x12))) ! 1 =
        \<lparr> type = nzxt_grid_fan_pwm, speed_rpm = 1500, in_millivolt = 12100,
          curr_milliamp = 1500 \<rparr>
   \<and> channel (snd (nzxt_grid_raw_event zero_device (example_report 4 0x12))) ! 0 =
        zero_channel_status"
proof -
  have a: "length (example_report 4 0x12) = 21"
    by (simp add: example_report_def)
  have b: "1 = unat (nzxt_grid_get_channel_index (status_report_at (example_report 4 0x12)))"
    by (simp add: example_report_def status_report_at_def nzxt_grid_get_channel_index_def)
  have c: "(1 :: nat) < 6" by simp
  have d: "length (channel zero_device) = 6"
    by (simp add: zero_device_def NZXT_GRID_MAX_CHANNELS_def)
  have e: "channel zero_device ! 0 = zero_channel_status"
    by (simp add: zero_device_def NZXT_GRID_MAX_CHANNELS_def)
  have f: "switch_fan_type (example_report 4 0x12 ! 15 AND 0x3) = nzxt_grid_fan_pwm"
    "ucast (be16_to_cpup (example_report 4 0x12 ! 3, example_report 4 0x12 ! 4)) = (1500 :: long)"
    "ucast (example_report 4 0x12 ! 7) * 1000 + ucast (example_report 4 0x12 ! 8) * 10 = (12100 :: long)"
    "ucast (example_report 4 0x12 ! 9) * 1000 + ucast (example_report 4 0x12 ! 10) * 10 = (1500 :: long)"
    by (simp_all add: example_report_def switch_fan_type_def be16_to_cpup_def)
  show ?thesis
    using a b [symmetric] d e f
      raw_event_updates_one_entry [OF a b c d, of zero_channel_status]
    by simp
qed

section \<open>Properties of the sensor reads\<close>

lemma channel_slot_in_range:
  assumes "0 \<le> sint ch" "sint ch < 6" "length (channel grid) = 6"
  shows "channel_slot grid ch = Some (channel grid ! nat (sint ch))"
  using assms by (simp add: channel_slot_def)

lemma hwmon_read_unsupported:
  assumes "\<not> (ty = hwmon_fan \<and> attr = hwmon_fan_input hw)"
    and "\<not> (ty = hwmon_pwm \<and> attr = hwmon_pwm_mode hw)"
    and "\<not> (ty = hwmon_in \<and> attr = hwmon_in_input hw)"
    and "\<not> (ty = hwmon_curr \<and> attr = hwmon_curr_input hw)"
  shows "nzxt_grid_hwmon_read hw grid ty attr ch = Some (Inl (- EINVAL))"
  using assms
  by (cases ty)
    (simp_all add: nzxt_grid_hwmon_read_fan_def nzxt_grid_hwmon_read_pwm_def
      nzxt_grid_hwmon_read_in_def nzxt_grid_hwmon_read_curr_def)

text \<open>
  Claim C6. For a channel inside the six-slot array, a read of \<open>fan\<close> with
  \<open>hwmon_fan_input\<close> returns \<open>speed_rpm\<close>, of \<open>pwm\<close> with \<open>hwmon_pwm_mode\<close> returns 1
  when the entry's type is pwm and 0 otherwise, of \<open>in\<close> with \<open>hwmon_in_input\<close> returns
  \<open>in_millivolt\<close>, of \<open>curr\<close> with \<open>hwmon_curr_input\<close> returns \<open>curr_milliamp\<close>; every
  other pair of sensor type and attribute returns \<open>-EINVAL\<close>, for any channel.
\<close>

theorem hwmon_read_values:
  assumes "0 \<le> sint ch" "sint ch < 6" "length (channel grid) = 6"
    and "s = channel grid ! nat (sint ch)"
  shows "nzxt_grid_hwmon_read hw grid hwmon_fan (hwmon_fan_input hw) ch = Some (Inr (speed_rpm s))
   \<and> nzxt_grid_hwmon_read hw grid hwmon_pwm (hwmon_pwm_mode hw) ch =
        Some (Inr (if type s = nzxt_grid_fan_pwm then 1 else 0))
   \<and> nzxt_grid_hwmon_read hw grid hwmon_in (hwmon_in_input hw) ch = Some (Inr (in_millivolt s))
   \<and> nzxt_grid_hwmon_read hw grid hwmon_curr (hwmon_curr_input hw) ch =
        Some (Inr (curr_milliamp s))
   \<and> (\<not> (ty = hwmon_fan \<and> attr = hwmon_fan_input hw)
        \<and> \<not> (ty = hwmon_pwm \<and> attr = hwmon_pwm_mode hw)
        \<and> \<not> (ty = hwmon_in \<and> attr = hwmon_in_input hw)
        \<and> \<not> (ty = hwmon_curr \<and> attr = hwmon_curr_input hw)
        \<longrightarrow> nzxt_grid_hwmon_read hw grid ty attr any_channel = Some (Inl (- EINVAL)))"
proof -
  note slot = channel_slot_in_range [OF assms(1-3)]
  have "nzxt_grid_hwmon_read hw grid hwmon_fan (hwmon_fan_input hw) ch = Some (Inr (speed_rpm s))"
    by (simp add: nzxt_grid_hwmon_read_fan_def slot assms(4))
  moreover have "nzxt_grid_hwmon_read hw grid hwmon_pwm (hwmon_pwm_mode hw) ch =
        Some (Inr (if type s = nzxt_grid_fan_pwm then 1 else 0))"
    by (simp add: nzxt_grid_hwmon_read_pwm_def slot assms(4))
  moreover have "nzxt_grid_hwmon_read hw grid hwmon_in (hwmon_in_input hw) ch =
        Some (Inr (in_millivolt s))"
    by (simp add: nzxt_grid_hwmon_read_in_def slot assms(4))
  moreover have "nzxt_grid_hwmon_read hw grid hwmon_curr (hwmon_curr_input hw) ch =
        Some (Inr (curr_milliamp s))"
    by (simp add: nzxt_grid_hwmon_read_curr_def slot assms(4))
  ultimately show ?thesis
    using hwmon_read_unsupported [of ty attr hw grid any_channel] by blast
qed

lemma example_device_eq:
  "example_device =
     \<lparr> hid = 0, hwmon = 0,
       channel =
         [zero_channel_status,
          \<lparr> type = nzxt_grid_fan_pwm, speed_rpm = 1500, in_millivolt = 12100,
            curr_milliamp = 1500 \<rparr>,
          zero_channel_status, zero_channel_status, zero_channel_status, zero_channel_status] \<rparr>"
proof -
  have zd: "zero_device =
     \<lparr> hid = 0, hwmon = 0,
       channel = [zero_channel_status, zero_channel_status, zero_channel_status,
         zero_channel_status, zero_channel_status, zero_channel_status] \<rparr>"
    by (simp add: zero_device_def NZXT_GRID_MAX_CHANNELS_def numeral_eq_Suc)
  show ?thesis
    unfolding example_device_def zd
    by (simp add: nzxt_grid_raw_event_def example_report_def
      sizeof_status_report_def status_report_at_def nzxt_grid_get_channel_index_def
      nzxt_grid_get_fan_type_def NZXT_GRID_MAX_CHANNELS_def store_status_def
      switch_fan_type_def be16_to_cpup_def Let_def zero_channel_status_def)
qed

text \<open>Reads of channel 1 after the example report, and two unsupported pairs.\<close>

theorem hwmon_read_values_witness:
  "nzxt_grid_hwmon_read example_attributes example_device hwmon_fan 1 1 = Some (Inr 1500)
   \<and> nzxt_grid_hwmon_read example_attributes example_device hwmon_pwm 2 1 = Some (Inr 1)
   \<and> nzxt_grid_hwmon_read example_attributes example_device hwmon_in 1 1 = Some (Inr 12100)
   \<and> nzxt_grid_hwmon_read example_attributes example_device hwmon_curr 1 1 = Some (Inr 1500)
   \<and> nzxt_grid_hwmon_read example_attributes example_device hwmon_pwm 0 1 = Some (Inl (- 22))
   \<and> nzxt_grid_hwmon_read example_attributes example_device hwmon_temp 1 1 = Some (Inl (- 22))"
proof -
  have a: "0 \<le> sint (1 :: c_int)" "sint (1 :: c_int) < 6" by simp_all
  have b: "length (channel example_device) = 6"
    by (simp add: example_device_eq)
  have c: "\<lparr> type = nzxt_grid_fan_pwm, speed_rpm = 1500, in_millivolt = 12100,
            curr_milliamp = 1500 \<rparr> = channel example_device ! nat (sint (1 :: c_int))"
    by (simp add: example_device_eq)
  show ?thesis
    using hwmon_read_values [OF a b c, of example_attributes hwmon_pwm 0 1]
      hwmon_read_values [OF a b c, of example_attributes hwmon_temp 1 1]
    by (simp add: example_attributes_def EINVAL_def)
qed

section \<open>Properties of the sensor writes\<close>

lemma send_output_report_no_memory:
  assumes "answer k (length (calls k)) = 0"
  shows "nzxt_grid_send_output_report grid data n k =
     (- ENOMEM, k \<lparr> calls := calls k @ [Kzalloc 65] \<rparr>)"
  using assms
  by (simp add: nzxt_grid_send_output_report_def call_kernel_def NZXT_GRID_OUTPUT_REPORT_SIZE_def)

lemma send_output_report_submits:
  assumes "answer k (length (calls k)) \<noteq> 0"
  shows "nzxt_grid_send_output_report grid data n k =
     (if answer k (length (calls k) + 1) < 0 then answer k (length (calls k) + 1) else 0,
      k \<lparr> calls := calls k @
            [Kzalloc 65, Hid_hw_output_report (take n data @ replicate (65 - n) 0), Kfree] \<rparr>)"
  using assms
  by (simp add: nzxt_grid_send_output_report_def call_kernel_def NZXT_GRID_OUTPUT_REPORT_SIZE_def
      memcpy_def Let_def)

lemma set_fan_speed_buffer:
  "take sizeof_set_fan_speed_output_report
     (set_fan_speed_output_report_bytes
        \<lparr> nzxt_grid_command_set_fan_speed_output_report.report_id = nzxt_grid_report_id_command,
          nzxt_grid_command_set_fan_speed_output_report.command = nzxt_grid_command_set_fan_speed,
          channel_index = c,
          nzxt_grid_command_set_fan_speed_output_report.unknown1 = 0,
          fan_speed_percent = d \<rparr>)
   @ replicate (65 - sizeof_set_fan_speed_output_report) 0
   = [0x02, 0x4D, c, 0, d] @ replicate 60 0"
  by (simp add: sizeof_set_fan_speed_output_report_def set_fan_speed_output_report_bytes_def
      nzxt_grid_report_id_command_def nzxt_grid_command_set_fan_speed_def)

lemma write_pwm_input_submits:
  assumes "answer k (length (calls k)) \<noteq> 0"
  shows "nzxt_grid_hwmon_write_pwm_input grid ch val k =
     (if answer k (length (calls k) + 1) < 0 then answer k (length (calls k) + 1) else 0,
      k \<lparr> calls := calls k @
            [Kzalloc 65,
             Hid_hw_output_report
               ([0x02, 0x4D, ucast ch, 0, nzxt_grid_pwm_to_percent val] @ replicate 60 0),
             Kfree] \<rparr>)"
  unfolding nzxt_grid_hwmon_write_pwm_input_def Let_def
    send_output_report_submits [OF assms] set_fan_speed_buffer
  by (rule refl)

lemma padded_bytes:
  "length ([a, b, c, d, e] @ replicate 60 (0 :: u8)) = 65
   \<and> take 5 ([a, b, c, d, e] @ replicate 60 (0 :: u8)) = [a, b, c, d, e]
   \<and> (\<forall>i. 5 \<le> i \<and> i < 65 \<longrightarrow> ([a, b, c, d, e] @ replicate 60 (0 :: u8)) ! i = 0)"
  by (auto simp: nth_append)

text \<open>
  Claim C3. When the output buffer is allocated, a set-fan-speed write for channel
  \<open>ch\<close> and value \<open>val\<close> submits exactly one output report of 65 bytes: \<open>0x02\<close>,
  \<open>0x4D\<close>, the channel as a byte, 0, the duty, and then 60 zero bytes.
\<close>

theorem set_fan_speed_command_bytes:
  assumes "answer k (length (calls k)) \<noteq> 0"
    and "buffer = [0x02, 0x4D, ucast ch, 0, nzxt_grid_pwm_to_percent val] @ replicate 60 0"
  shows "calls (snd (nzxt_grid_hwmon_write_pwm_input grid ch val k)) =
           calls k @ [Kzalloc 65, Hid_hw_output_report buffer, Kfree]
   \<and> length buffer = 65
   \<and> take 5 buffer = [0x02, 0x4D, ucast ch, 0, nzxt_grid_pwm_to_percent val]
   \<and> (\<forall>i. 5 \<le> i \<and> i < 65 \<longrightarrow> buffer ! i = 0)"
  unfolding write_pwm_input_submits [OF assms(1)] assms(2)
  using padded_bytes by simp

lemma percent_128: "nzxt_grid_pwm_to_percent 128 = 50"
  by (simp add: nzxt_grid_pwm_to_percent_def long_sdiv_def word_sless_alt word_sle_eq
      signed_divide_int_def)

text \<open>Channel 2 with value 128: the bytes 02 4D 02 00 32 and 60 zeros.\<close>

theorem set_fan_speed_command_bytes_witness:
  "answer (fresh_kernel probe_success_answer) (length (calls (fresh_kernel probe_success_answer))) \<noteq> 0
   \<and> calls (snd (nzxt_grid_hwmon_write_pwm_input zero_device 2 128
        (fresh_kernel probe_success_answer))) =
      [Kzalloc 65, Hid_hw_output_report ([0x02, 0x4D, 0x02, 0x00, 0x32] @ replicate 60 0), Kfree]"
proof -
  have a: "answer (fresh_kernel probe_success_answer)
      (length (calls (fresh_kernel probe_success_answer))) \<noteq> 0"
    by (simp add: fresh_kernel_def probe_success_answer_def)
  have b: "[0x02, 0x4D, 0x02, 0x00, 0x32] @ replicate 60 0 =
      [0x02, 0x4D, ucast (2 :: c_int), 0, nzxt_grid_pwm_to_percent 128] @ replicate 60 0"
    by (simp add: percent_128)
  show ?thesis
    using a set_fan_speed_command_bytes [OF a b, of zero_device]
    by (simp add: fresh_kernel_def)
qed

lemma hwmon_write_unsupported:
  assumes "ty \<noteq> hwmon_pwm \<or> attr \<noteq> hwmon_pwm_input hw"
  shows "nzxt_grid_hwmon_write hw grid ty attr ch val k = (- EINVAL, k)"
  using assms by (cases ty) (simp_all add: nzxt_grid_hwmon_write_pwm_def)

lemma hwmon_write_pwm_input:
  "nzxt_grid_hwmon_write hw grid hwmon_pwm (hwmon_pwm_input hw) ch val k =
     nzxt_grid_hwmon_write_pwm_input grid ch val k"
  by (simp add: nzxt_grid_hwmon_write_pwm_def)

lemma send_output_report_calls:
  "calls (snd (nzxt_grid_send_output_report grid data n k)) \<noteq> calls k"
  by (cases "answer k (length (calls k)) = 0")
    (simp_all add: send_output_report_no_memory send_output_report_submits)

text \<open>
  Claim C7. A write with a sensor type other than \<open>pwm\<close>, or an attribute other than
  \<open>hwmon_pwm_input\<close>, returns \<open>-EINVAL\<close> and calls nothing; a write of \<open>pwm\<close> with
  \<open>hwmon_pwm_input\<close> is the set-fan-speed command; so an output report is submitted
  only for that pair.
\<close>

theorem hwmon_write_only_pwm_input:
  "(ty \<noteq> hwmon_pwm \<or> attr \<noteq> hwmon_pwm_input hw \<longrightarrow>
      nzxt_grid_hwmon_write hw grid ty attr ch val k = (- EINVAL, k))
   \<and> (ty = hwmon_pwm \<and> attr = hwmon_pwm_input hw \<longrightarrow>
      nzxt_grid_hwmon_write hw grid ty attr ch val k =
        nzxt_grid_hwmon_write_pwm_input grid ch val k)
   \<and> ((\<exists>buffer. Hid_hw_output_report buffer
          \<in> set (calls (snd (nzxt_grid_hwmon_write hw grid ty attr ch val k))) - set (calls k))
        \<longrightarrow> ty = hwmon_pwm \<and> attr = hwmon_pwm_input hw)"
proof -
  have a: "nzxt_grid_hwmon_write hw grid ty attr ch val k = (- EINVAL, k)"
    if "ty \<noteq> hwmon_pwm \<or> attr \<noteq> hwmon_pwm_input hw"
    using that by (rule hwmon_write_unsupported)
  have b: "nzxt_grid_hwmon_write hw grid ty attr ch val k =
        nzxt_grid_hwmon_write_pwm_input grid ch val k"
    if "ty = hwmon_pwm \<and> attr = hwmon_pwm_input hw"
    using that by (simp add: nzxt_grid_hwmon_write_pwm_def)
  have c: "ty = hwmon_pwm \<and> attr = hwmon_pwm_input hw"
    if "\<exists>buffer. Hid_hw_output_report buffer
          \<in> set (calls (snd (nzxt_grid_hwmon_write hw grid ty attr ch val k))) - set (calls k)"
  proof (rule ccontr)
    assume "\<not> (ty = hwmon_pwm \<and> attr = hwmon_pwm_input hw)"
    then have "nzxt_grid_hwmon_write hw grid ty attr ch val k = (- EINVAL, k)"
      using a by blast
    with that show False by simp
  qed
  from a b c show ?thesis by blast
qed

text \<open>A write to a fan, a write of the pwm mode, and a write of the pwm input.\<close>

theorem hwmon_write_only_pwm_input_witness:
  "nzxt_grid_hwmon_write example_attributes zero_device hwmon_fan 0 2 128
       (fresh_kernel probe_success_answer) = (- 22, fresh_kernel probe_success_answer)
   \<and> nzxt_grid_hwmon_write example_attributes zero_device hwmon_pwm 2 2 128
       (fresh_kernel probe_success_answer) = (- 22, fresh_kernel probe_success_answer)
   \<and> calls (snd (nzxt_grid_hwmon_write example_attributes zero_device hwmon_pwm 0 2 128
       (fresh_kernel probe_success_answer))) =
      [Kzalloc 65, Hid_hw_output_report ([0x02, 0x4D, 0x02, 0x00, 0x32] @ replicate 60 0), Kfree]"
proof -
  have a: "answer (fresh_kernel probe_success_answer)
      (length (calls (fresh_kernel probe_success_answer))) \<noteq> 0"
    by (simp add: fresh_kernel_def probe_success_answer_def)
  have b: "calls (snd (nzxt_grid_hwmon_write_pwm_input zero_device 2 128
        (fresh_kernel probe_success_answer))) =
      [Kzalloc 65, Hid_hw_output_report ([0x02, 0x4D, 0x02, 0x00, 0x32] @ replicate 60 0), Kfree]"
    unfolding write_pwm_input_submits [OF a] by (simp add: percent_128 fresh_kernel_def)
  show ?thesis
    using b
      hwmon_write_only_pwm_input [of hwmon_fan 0 example_attributes zero_device 2 128
        "fresh_kernel probe_success_answer"]
      hwmon_write_only_pwm_input [of hwmon_pwm 2 example_attributes zero_device 2 128
        "fresh_kernel probe_success_answer"]
      hwmon_write_only_pwm_input [of hwmon_pwm 0 example_attributes zero_device 2 128
        "fresh_kernel probe_success_answer"]
    by (simp add: example_attributes_def EINVAL_def)
qed

lemma uint_ucast_int_u8: "uint (ucast (ch :: c_int) :: u8) = sint ch mod 256"
proof -
  have "uint (ucast ch :: u8) = take_bit 8 (uint ch)"
    by (simp add: unsigned_ucast_eq)
  also have "\<dots> = take_bit 8 (signed_take_bit 31 (uint ch))"
    by (simp add: take_bit_signed_take_bit)
  also have "\<dots> = take_bit 8 (sint ch)"
    by (simp add: sint_uint)
  finally show ?thesis by (simp add: take_bit_eq_mod)
qed

text \<open>
  Claim C10. The write of \<open>pwm\<close> with \<open>hwmon_pwm_input\<close> checks no range of the
  channel: for every \<open>int\<close> channel, once the buffer is allocated, byte 2 of the
  submitted command is the channel cut to eight bits, and the return code is the
  transport's when negative and 0 otherwise.
\<close>

theorem hwmon_write_channel_unchecked:
  assumes "answer k (length (calls k)) \<noteq> 0"
    and "buffer = [0x02, 0x4D, ucast ch, 0, nzxt_grid_pwm_to_percent val] @ replicate 60 0"
  shows "calls (snd (nzxt_grid_hwmon_write hw grid hwmon_pwm (hwmon_pwm_input hw) ch val k)) =
           calls k @ [Kzalloc 65, Hid_hw_output_report buffer, Kfree]
   \<and> fst (nzxt_grid_hwmon_write hw grid hwmon_pwm (hwmon_pwm_input hw) ch val k) =
        (if answer k (length (calls k) + 1) < 0 then answer k (length (calls k) + 1) else 0)
   \<and> buffer ! 2 = ucast ch
   \<and> uint (buffer ! 2) = sint ch mod 256"
  unfolding hwmon_write_pwm_input write_pwm_input_submits [OF assms(1)] assms(2)
  by (simp add: uint_ucast_int_u8)

text \<open>Channel 7 gives byte 07 and channel -1 gives byte FF; both are submitted.\<close>

theorem hwmon_write_channel_unchecked_witness:
  "answer (fresh_kernel probe_success_answer) (length (calls (fresh_kernel probe_success_answer))) \<noteq> 0
   \<and> calls (snd (nzxt_grid_hwmon_write example_attributes zero_device hwmon_pwm 0 7 128
        (fresh_kernel probe_success_answer))) =
      [Kzalloc 65, Hid_hw_output_report ([0x02, 0x4D, 0x07, 0x00, 0x32] @ replicate 60 0), Kfree]
   \<and> calls (snd (nzxt_grid_hwmon_write example_attributes zero_device hwmon_pwm 0 (- 1) 128
        (fresh_kernel probe_success_answer))) =
      [Kzalloc 65, Hid_hw_output_report ([0x02, 0x4D, 0xFF, 0x00, 0x32] @ replicate 60 0), Kfree]
   \<and> fst (nzxt_grid_hwmon_write example_attributes zero_device hwmon_pwm 0 (- 1) 128
        (fresh_kernel probe_success_answer)) = 0"
proof -
  have a: "answer (fresh_kernel probe_success_answer)
      (length (calls (fresh_kernel probe_success_answer))) \<noteq> 0"
    by (simp add: fresh_kernel_def probe_success_answer_def)
  have b: "[0x02, 0x4D, 0x07, 0x00, 0x32] @ replicate 60 0 =
      [0x02, 0x4D, ucast (7 :: c_int), 0, nzxt_grid_pwm_to_percent 128] @ replicate 60 0"
    by (simp add: percent_128)
  have "uint (ucast (- 1 :: c_int) :: u8) = uint (0xFF :: u8)"
    unfolding uint_ucast_int_u8 by simp
  then have "ucast (- 1 :: c_int) = (0xFF :: u8)"
    by (simp only: word_uint_eq_iff)
  then have c: "[0x02, 0x4D, 0xFF, 0x00, 0x32] @ replicate 60 0 =
      [0x02, 0x4D, ucast (- 1 :: c_int), 0, nzxt_grid_pwm_to_percent 128] @ replicate 60 0"
    by (simp add: percent_128)
  have d: "hwmon_pwm_input example_attributes = 0"
    by (simp add: example_attributes_def)
  show ?thesis
    using a hwmon_write_channel_unchecked [OF a b, of example_attributes zero_device]
      hwmon_write_channel_unchecked [OF a c, of example_attributes zero_device]
    by (simp add: d fresh_kernel_def probe_success_answer_def)
qed

section \<open>Properties of the report id\<close>

lemma raw_event_first_byte:
  "nzxt_grid_raw_event grid (data[0 := b]) = nzxt_grid_raw_event grid data"
proof -
  have "store_status (status_report_at (data[0 := b])) = store_status (status_report_at data)"
    by (rule ext)+ (simp add: store_status_def status_report_at_def)
  moreover have "nzxt_grid_get_channel_index (status_report_at (data[0 := b])) =
      nzxt_grid_get_channel_index (status_report_at data)"
    by (simp add: nzxt_grid_get_channel_index_def status_report_at_def)
  moreover have "nzxt_grid_get_fan_type (status_report_at (data[0 := b])) =
      nzxt_grid_get_fan_type (status_report_at data)"
    by (simp add: nzxt_grid_get_fan_type_def status_report_at_def)
  ultimately show ?thesis
    by (simp add: nzxt_grid_raw_event_def Let_def)
qed

text \<open>
  Claim C9, as amended. For every buffer of 21 bytes, \<open>nzxt_grid_raw_event\<close>
  decides without the byte at offset 0: putting any value there gives the same
  return code and the same device; the buffer is dropped when its channel index
  is 6 or more and is stored in the entry of its channel otherwise, whether or not
  the first byte is the status report id.
\<close>

theorem raw_event_decides_without_report_id:
  assumes "length data = 21"
    and "c = unat (drop_bit 4 (data ! 15))"
  shows "nzxt_grid_raw_event grid (data[0 := b]) = nzxt_grid_raw_event grid data
   \<and> (6 \<le> c \<longrightarrow> nzxt_grid_raw_event grid data = (0, grid))
   \<and> (c < 6 \<longrightarrow>
        nzxt_grid_raw_event grid data =
          (0, grid \<lparr> channel := (channel grid)
                [c := \<lparr> type = switch_fan_type (data ! 15 AND 0x3),
                        speed_rpm = ucast (be16_to_cpup (data ! 3, data ! 4)),
                        in_millivolt = ucast (data ! 7) * 1000 + ucast (data ! 8) * 10,
                        curr_milliamp = ucast (data ! 9) * 1000 + ucast (data ! 10) * 10 \<rparr>] \<rparr>))"
proof -
  have idx: "unat (nzxt_grid_get_channel_index (status_report_at data)) = c"
    by (simp add: assms(2) nzxt_grid_get_channel_index_def status_report_at_def)
  have rejected: "nzxt_grid_raw_event grid data = (0, grid)" if "6 \<le> c"
    using raw_event_bad_index [of data grid] that idx by simp
  have applied: "nzxt_grid_raw_event grid data =
          (0, grid \<lparr> channel := (channel grid)
                [c := \<lparr> type = switch_fan_type (data ! 15 AND 0x3),
                        speed_rpm = ucast (be16_to_cpup (data ! 3, data ! 4)),
                        in_millivolt = ucast (data ! 7) * 1000 + ucast (data ! 8) * 10,
                        curr_milliamp = ucast (data ! 9) * 1000 + ucast (data ! 10) * 10 \<rparr>] \<rparr>)"
    if "c < 6"
  proof -
    have "nzxt_grid_raw_event grid data =
        (0, grid \<lparr> channel := (channel grid)
          [c := store_status (status_report_at data)
                  (nzxt_grid_get_fan_type (status_report_at data)) (channel grid ! c)] \<rparr>)"
      using raw_event_apply [of data grid] assms(1) that idx by simp
    then show ?thesis
      unfolding store_status_overwrites
      by (simp add: status_report_at_def nzxt_grid_get_fan_type_def)
  qed
  from raw_event_first_byte [of grid data b] rejected applied show ?thesis by blast
qed

text \<open>
  The example report with first byte 0: stored for channel 1 as with first byte 4,
  dropped for channel 6.
\<close>

theorem raw_event_decides_without_report_id_witness:
  "length (example_report 0 0x12) = 21
   \<and> example_report 0 0x12 ! 0 \<noteq> nzxt_grid_report_id_status
   \<and> unat (drop_bit 4 (example_report 0 0x12 ! 15)) = 1
   \<and> nzxt_grid_raw_event zero_device (example_report 4 0x12) =
       nzxt_grid_raw_event zero_device (example_report 0 0x12)
   \<and> nzxt_grid_raw_event zero_device (example_report 0 0x12) =
       (0, zero_device \<lparr> channel := (channel zero_device)
             [1 := \<lparr> type = nzxt_grid_fan_pwm, speed_rpm = 1500, in_millivolt = 12100,
                     curr_milliamp = 1500 \<rparr>] \<rparr>)
   \<and> unat (drop_bit 4 (example_report 0 0x62 ! 15)) = 6
   \<and> nzxt_grid_raw_event zero_device (example_report 0 0x62) = (0, zero_device)"
proof -
  have a: "length (example_report 0 p) = 21" for p
    by (simp add: example_report_def)
  have b: "1 = unat (drop_bit 4 (example_report 0 0x12 ! 15))"
    by (simp add: example_report_def)
  have c: "6 = unat (drop_bit 4 (example_report 0 0x62 ! 15))"
    by (simp add: example_report_def)
  have d: "(example_report 0 0x12)[0 := 4] = example_report 4 0x12"
    by (simp add: example_report_def)
  have e: "example_report 0 0x12 ! 0 \<noteq> nzxt_grid_report_id_status"
    by (simp add: example_report_def nzxt_grid_report_id_status_def)
  have f: "switch_fan_type (example_report 0 0x12 ! 15 AND 0x3) = nzxt_grid_fan_pwm"
    "ucast (be16_to_cpup (example_report 0 0x12 ! 3, example_report 0 0x12 ! 4)) = (1500 :: long)"
    "ucast (example_report 0 0x12 ! 7) * 1000 + ucast (example_report 0 0x12 ! 8) * 10 = (12100 :: long)"
    "ucast (example_report 0 0x12 ! 9) * 1000 + ucast (example_report 0 0x12 ! 10) * 10 = (1500 :: long)"
    by (simp_all add: example_report_def switch_fan_type_def be16_to_cpup_def)
  show ?thesis
    using a [of "0x12"] b [symmetric] c [symmetric] e
      raw_event_decides_without_report_id [OF a b, of zero_device 4]
      raw_event_decides_without_report_id [OF a c, of zero_device 4]
    by (simp add: d f)
qed

text \<open>
  Claim C9, as stated, fails: a buffer of 21 bytes whose first byte is 0, not the
  status report id, with channel index 1, changes entry 1 of the zeroed device.
\<close>

theorem raw_event_accepts_other_report_id:
  "length (example_report 0 0x12) = 21
   \<and> example_report 0 0x12 ! 0 \<noteq> nzxt_grid_report_id_status
   \<and> channel (snd (nzxt_grid_raw_event zero_device (example_report 0 0x12))) ! 1 =
        \<lparr> type = nzxt_grid_fan_pwm, speed_rpm = 1500, in_millivolt = 12100,
          curr_milliamp = 1500 \<rparr>
   \<and> snd (nzxt_grid_raw_event zero_device (example_report 0 0x12)) \<noteq> zero_device"
proof -
  have "nzxt_grid_raw_event zero_device ((example_report 4 0x12)[0 := 0]) =
      nzxt_grid_raw_event zero_device (example_report 4 0x12)"
    by (simp add: nzxt_grid_raw_event_def Let_def status_report_at_def store_status_def
        nzxt_grid_get_channel_index_def nzxt_grid_get_fan_type_def example_report_def)
  moreover have "(example_report 4 0x12)[0 := 0] = example_report 0 0x12"
    by (simp add: example_report_def)
  ultimately have same: "snd (nzxt_grid_raw_event zero_device (example_report 0 0x12)) =
      example_device"
    by (simp add: example_device_def)
  have "example_device \<noteq> zero_device"
    unfolding example_device_eq
    by (simp add: zero_device_def NZXT_GRID_MAX_CHANNELS_def numeral_eq_Suc zero_channel_status_def)
  moreover have "channel example_device ! 1 =
        \<lparr> type = nzxt_grid_fan_pwm, speed_rpm = 1500, in_millivolt = 12100,
          curr_milliamp = 1500 \<rparr>"
    by (simp add: example_device_eq)
  ultimately show ?thesis
    unfolding same by (simp add: example_report_def nzxt_grid_report_id_status_def)
qed

section \<open>Properties of the probe\<close>

lemma command_buffer:
  "take sizeof_command_output_report
     (command_output_report_bytes
        \<lparr> nzxt_grid_command_output_report.report_id = nzxt_grid_report_id_command,
          nzxt_grid_command_output_report.command = c \<rparr>)
   @ replicate (65 - sizeof_command_output_report) 0
   = [0x02, c] @ replicate 63 0"
  by (simp add: sizeof_command_output_report_def command_output_report_bytes_def
      nzxt_grid_report_id_command_def)

lemma send_output_report_cases:
  "nzxt_grid_send_output_report grid data n k =
     (if answer k (length (calls k)) = 0
      then (- ENOMEM, k \<lparr> calls := calls k @ [Kzalloc 65] \<rparr>)
      else (if answer k (length (calls k) + 1) < 0 then answer k (length (calls k) + 1) else 0,
            k \<lparr> calls := calls k @
              [Kzalloc 65, Hid_hw_output_report (take n data @ replicate (65 - n) 0), Kfree] \<rparr>))"
  by (simp add: send_output_report_no_memory send_output_report_submits)

lemma detect_fans_cases:
  "nzxt_grid_detect_fans grid k =
     (if answer k (length (calls k)) = 0
      then (- ENOMEM, k \<lparr> calls := calls k @ [Kzalloc 65] \<rparr>)
      else (if answer k (length (calls k) + 1) < 0 then answer k (length (calls k) + 1) else 0,
            k \<lparr> calls := calls k @
              [Kzalloc 65, Hid_hw_output_report ([0x02, 0x5C] @ replicate 63 0), Kfree] \<rparr>))"
  unfolding nzxt_grid_detect_fans_def Let_def send_output_report_cases command_buffer
  by (simp add: nzxt_grid_command_detect_fans_def)

lemma start_reporting_cases:
  "nzxt_grid_start_reporting grid k =
     (if answer k (length (calls k)) = 0
      then (- ENOMEM, k \<lparr> calls := calls k @ [Kzalloc 65] \<rparr>)
      else (if answer k (length (calls k) + 1) < 0 then answer k (length (calls k) + 1) else 0,
            k \<lparr> calls := calls k @
              [Kzalloc 65, Hid_hw_output_report ([0x02, 0x5D] @ replicate 63 0), Kfree] \<rparr>))"
  unfolding nzxt_grid_start_reporting_def Let_def send_output_report_cases command_buffer
  by (simp add: nzxt_grid_command_start_reporting_def)

lemma add_numeral_Suc:
  "n + 1 = Suc n"
  "n + 2 = Suc (Suc n)"
  "n + 3 = Suc (Suc (Suc n))"
  "n + 5 = Suc (Suc (Suc (Suc (Suc n))))"
  "n + 6 = Suc (Suc (Suc (Suc (Suc (Suc n)))))"
  "n + 8 = Suc (Suc (Suc (Suc (Suc (Suc (Suc (Suc n)))))))"
  "n + 9 = Suc (Suc (Suc (Suc (Suc (Suc (Suc (Suc (Suc n))))))))"
  "n + 11 = Suc (Suc (Suc (Suc (Suc (Suc (Suc (Suc (Suc (Suc (Suc n))))))))))"
  by simp_all

lemmas probe_unfold =
  nzxt_grid_probe_def detect_fans_cases start_reporting_cases call_kernel_def
  out_hw_close_def out_hw_stop_def Let_def spec_handshake_calls_def PTR_ERR_def add_numeral_Suc

lemma probe_cases:
  fixes k :: kernel and hdev :: nat and dd :: nat
  defines "a \<equiv> \<lambda>n. answer k (length (calls k) + n)"
  defines "ext \<equiv> \<lambda>cs. k \<lparr> calls := calls k @ cs \<rparr>"
  defines "g \<equiv> zero_device \<lparr> hid := hdev \<rparr>"
  defines "s \<equiv> spec_handshake_calls dd"
  shows "nzxt_grid_probe hdev dd k =
     (if a 0 = 0 then (- ENOMEM, None, ext (take 1 s))
      else if a 1 \<noteq> 0 then (a 1, Some g, ext (take 2 s))
      else if a 2 \<noteq> 0 then (a 2, Some g, ext (take 3 s))
      else if a 3 \<noteq> 0 then (a 3, Some g, ext (take 4 s @ [Hid_hw_stop]))
      else if a 5 = 0 then (- ENOMEM, Some g, ext (take 6 s @ [Hid_hw_close, Hid_hw_stop]))
      else if a 6 < 0 then (a 6, Some g, ext (take 8 s @ [Hid_hw_close, Hid_hw_stop]))
      else if a 8 = 0 then (- ENOMEM, Some g, ext (take 9 s @ [Hid_hw_close, Hid_hw_stop]))
      else if a 9 < 0 then (a 9, Some g, ext (take 11 s @ [Hid_hw_close, Hid_hw_stop]))
      else if IS_ERR (a 11)
        then (a 11, Some (g \<lparr> hwmon := a 11 \<rparr>), ext (s @ [Hid_hw_close, Hid_hw_stop]))
      else (0, Some (g \<lparr> hwmon := a 11 \<rparr>), ext s))"
proof (cases "a 0 = 0")
  case True
  then show ?thesis
    unfolding a_def ext_def g_def s_def by (simp add: probe_unfold)
next
  case f0: False
  show ?thesis
  proof (cases "a 1 = 0")
    case False
    with f0 show ?thesis
      unfolding a_def ext_def g_def s_def by (simp add: probe_unfold)
  next
    case t1: True
    show ?thesis
    proof (cases "a 2 = 0")
      case False
      with f0 t1 show ?thesis
        unfolding a_def ext_def g_def s_def by (simp add: probe_unfold)
    next
      case t2: True
      show ?thesis
      proof (cases "a 3 = 0")
        case False
        with f0 t1 t2 show ?thesis
          unfolding a_def ext_def g_def s_def by (simp add: probe_unfold)
      next
        case t3: True
        show ?thesis
        proof (cases "a 5 = 0")
          case True
          with f0 t1 t2 t3 show ?thesis
            unfolding a_def ext_def g_def s_def by (simp add: probe_unfold ENOMEM_def)
        next
          case f5: False
          show ?thesis
          proof (cases "a 6 < 0")
            case True
            with f0 t1 t2 t3 f5 show ?thesis
              unfolding a_def ext_def g_def s_def by (simp add: probe_unfold)
          next
            case f6: False
            show ?thesis
            proof (cases "a 8 = 0")
              case True
              with f0 t1 t2 t3 f5 f6 show ?thesis
                unfolding a_def ext_def g_def s_def by (simp add: probe_unfold ENOMEM_def)
            next
              case f8: False
              show ?thesis
              proof (cases "a 9 < 0")
                case True
                with f0 t1 t2 t3 f5 f6 f8 show ?thesis
                  unfolding a_def ext_def g_def s_def by (simp add: probe_unfold)
              next
                case f9: False
                with f0 t1 t2 t3 f5 f6 f8 show ?thesis
                  unfolding a_def ext_def g_def s_def by (simp add: probe_unfold)
              qed
            qed
          qed
        qed
      qed
    qed
  qed
qed

lemma probe_new_calls:
  "calls (snd (snd (nzxt_grid_probe hdev dd k))) =
     calls k @ drop (length (calls k)) (calls (snd (snd (nzxt_grid_probe hdev dd k))))"
  unfolding probe_cases by simp

lemma probe_ret_zero_iff:
  "fst (nzxt_grid_probe hdev dd k) = 0 \<longleftrightarrow>
     answer k (length (calls k) + 0) \<noteq> 0
     \<and> answer k (length (calls k) + 1) = 0
     \<and> answer k (length (calls k) + 2) = 0
     \<and> answer k (length (calls k) + 3) = 0
     \<and> answer k (length (calls k) + 5) \<noteq> 0
     \<and> 0 \<le> answer k (length (calls k) + 6)
     \<and> answer k (length (calls k) + 8) \<noteq> 0
     \<and> 0 \<le> answer k (length (calls k) + 9)
     \<and> \<not> IS_ERR (answer k (length (calls k) + 11))"
  unfolding probe_cases by (auto simp: ENOMEM_def IS_ERR_def)

lemma probe_success_calls:
  "fst (nzxt_grid_probe hdev dd k) = 0 \<Longrightarrow>
   drop (length (calls k)) (calls (snd (snd (nzxt_grid_probe hdev dd k)))) = spec_handshake_calls dd"
  unfolding probe_cases by (simp add: ENOMEM_def IS_ERR_def split: if_splits)

lemma probe_register_after_commands:
  "Hwmon_device_register_with_info dd
     \<in> set (drop (length (calls k)) (calls (snd (snd (nzxt_grid_probe hdev dd k))))) \<Longrightarrow>
   take 12 (drop (length (calls k)) (calls (snd (snd (nzxt_grid_probe hdev dd k))))) =
     spec_handshake_calls dd
   \<and> 0 \<le> answer k (length (calls k) + 6) \<and> 0 \<le> answer k (length (calls k) + 9)"
  unfolding probe_cases by (simp add: spec_handshake_calls_def split: if_splits)

lemma probe_failure_unwinds:
  "fst (nzxt_grid_probe hdev dd k) \<noteq> 0 \<Longrightarrow>
   drop (length (calls k)) (calls (snd (snd (nzxt_grid_probe hdev dd k)))) =
     filter (\<lambda>c. c \<noteq> Hid_hw_close \<and> c \<noteq> Hid_hw_stop)
       (drop (length (calls k)) (calls (snd (snd (nzxt_grid_probe hdev dd k)))))
     @ (if Hid_hw_open \<in> set (drop (length (calls k))
             (calls (snd (snd (nzxt_grid_probe hdev dd k)))))
           \<and> answer k (length (calls k) + 3) = 0
        then [Hid_hw_close] else [])
     @ (if Hid_hw_start \<in> set (drop (length (calls k))
             (calls (snd (snd (nzxt_grid_probe hdev dd k)))))
           \<and> answer k (length (calls k) + 2) = 0
        then [Hid_hw_stop] else [])"
  unfolding probe_cases by (simp add: spec_handshake_calls_def split: if_splits)

text \<open>
  Claim C8. The calls of a probe are appended to the kernel's. When the probe
  returns 0 they are exactly \<open>spec_handshake_calls\<close>: the output reports are the detect-fans
  buffer and then the start-reporting buffer, and the registration comes last. The
  sensor surface is registered only after both commands were submitted with a
  non-negative result. The probe returns 0 exactly when every step succeeds; when
  it fails, its calls end with \<open>hid_hw_close\<close> if the open had succeeded and then
  \<open>hid_hw_stop\<close> if the start had succeeded, and these occur nowhere else.
\<close>

theorem probe_handshake_order:
  "(let r = nzxt_grid_probe hdev dd k;
        ret = fst r;
        new = drop (length (calls k)) (calls (snd (snd r)));
        a = (\<lambda>n. answer k (length (calls k) + n))
    in calls (snd (snd r)) = calls k @ new
     \<and> (ret = 0 \<longrightarrow>
          new = spec_handshake_calls dd
          \<and> [b. Hid_hw_output_report b \<leftarrow> new] =
              [[0x02, 0x5C] @ replicate 63 0, [0x02, 0x5D] @ replicate 63 0])
     \<and> (Hwmon_device_register_with_info dd \<in> set new \<longrightarrow>
          take 12 new = spec_handshake_calls dd \<and> 0 \<le> a 6 \<and> 0 \<le> a 9)
     \<and> (ret = 0 \<longleftrightarrow>
          a 0 \<noteq> 0 \<and> a 1 = 0 \<and> a 2 = 0 \<and> a 3 = 0 \<and> a 5 \<noteq> 0 \<and> 0 \<le> a 6 \<and> a 8 \<noteq> 0
          \<and> 0 \<le> a 9 \<and> \<not> IS_ERR (a 11))
     \<and> (ret \<noteq> 0 \<longrightarrow>
          new = filter (\<lambda>c. c \<noteq> Hid_hw_close \<and> c \<noteq> Hid_hw_stop) new
                @ (if Hid_hw_open \<in> set new \<and> a 3 = 0 then [Hid_hw_close] else [])
                @ (if Hid_hw_start \<in> set new \<and> a 2 = 0 then [Hid_hw_stop] else [])))"
proof -
  let ?r = "nzxt_grid_probe hdev dd k"
  let ?new = "drop (length (calls k)) (calls (snd (snd ?r)))"
  have outs: "[b. Hid_hw_output_report b \<leftarrow> ?new] =
      [[0x02, 0x5C] @ replicate 63 0, [0x02, 0x5D] @ replicate 63 0]"
    if "fst ?r = 0"
    unfolding probe_success_calls [OF that] by (simp add: spec_handshake_calls_def)
  show ?thesis
    unfolding Let_def
    using probe_new_calls [of hdev dd k] probe_success_calls [of hdev dd k] outs
      probe_register_after_commands [of dd k hdev] probe_ret_zero_iff [of hdev dd k]
      probe_failure_unwinds [of hdev dd k]
    by blast
qed

lemma probe_success_example:
  "nzxt_grid_probe 3 0 (fresh_kernel probe_success_answer) =
     (0, Some (zero_device \<lparr> hid := 3, hwmon := 4096 \<rparr>),
      \<lparr> calls = spec_handshake_calls 0, answer = probe_success_answer \<rparr>)"
  unfolding probe_cases
  by (simp add: fresh_kernel_def probe_success_answer_def IS_ERR_def)

lemma probe_failure_example:
  "nzxt_grid_probe 3 0 (fresh_kernel detect_fails_answer) =
     (- 5, Some (zero_device \<lparr> hid := 3 \<rparr>),
      \<lparr> calls = take 8 (spec_handshake_calls 0) @ [Hid_hw_close, Hid_hw_stop],
        answer = detect_fails_answer \<rparr>)"
  unfolding probe_cases
  by (simp add: fresh_kernel_def detect_fails_answer_def probe_success_answer_def)

text \<open>A probe where every call succeeds, and one where the detect-fans report fails.\<close>

theorem probe_handshake_order_witness:
  "fst (nzxt_grid_probe 3 0 (fresh_kernel probe_success_answer)) = 0
   \<and> calls (snd (snd (nzxt_grid_probe 3 0 (fresh_kernel probe_success_answer)))) =
       [Devm_kzalloc, Hid_parse, Hid_hw_start, Hid_hw_open, Hid_device_io_start,
        Kzalloc 65, Hid_hw_output_report ([0x02, 0x5C] @ replicate 63 0), Kfree,
        Kzalloc 65, Hid_hw_output_report ([0x02, 0x5D] @ replicate 63 0), Kfree,
        Hwmon_device_register_with_info 0]
   \<and> fst (nzxt_grid_probe 3 0 (fresh_kernel detect_fails_answer)) = - 5
   \<and> calls (snd (snd (nzxt_grid_probe 3 0 (fresh_kernel detect_fails_answer)))) =
       [Devm_kzalloc, Hid_parse, Hid_hw_start, Hid_hw_open, Hid_device_io_start,
        Kzalloc 65, Hid_hw_output_report ([0x02, 0x5C] @ replicate 63 0), Kfree,
        Hid_hw_close, Hid_hw_stop]"
proof -
  have a: "fst (nzxt_grid_probe 3 0 (fresh_kernel probe_success_answer)) = 0"
    by (simp add: probe_success_example)
  have b: "fst (nzxt_grid_probe 3 0 (fresh_kernel detect_fails_answer)) = - 5"
    by (simp add: probe_failure_example)
  have c: "calls (fresh_kernel x) = []" for x
    by (simp add: fresh_kernel_def)
  have e: "answer (fresh_kernel x) = x" for x
    by (simp add: fresh_kernel_def)
  have d: "calls (snd (snd (nzxt_grid_probe 3 0 (fresh_kernel detect_fails_answer)))) =
       [Devm_kzalloc, Hid_parse, Hid_hw_start, Hid_hw_open, Hid_device_io_start,
        Kzalloc 65, Hid_hw_output_report ([0x02, 0x5C] @ replicate 63 0), Kfree,
        Hid_hw_close, Hid_hw_stop]"
    by (simp add: probe_failure_example spec_handshake_calls_def)
  from probe_handshake_order [of 3 0 "fresh_kernel probe_success_answer"] a
  have "calls (snd (snd (nzxt_grid_probe 3 0 (fresh_kernel probe_success_answer)))) =
      spec_handshake_calls 0"
    by (simp add: Let_def c)
  moreover from probe_handshake_order [of 3 0 "fresh_kernel detect_fails_answer"] b
  have "calls (snd (snd (nzxt_grid_probe 3 0 (fresh_kernel detect_fails_answer)))) =
      filter (\<lambda>c. c \<noteq> Hid_hw_close \<and> c \<noteq> Hid_hw_stop)
        (calls (snd (snd (nzxt_grid_probe 3 0 (fresh_kernel detect_fails_answer)))))
      @ [Hid_hw_close, Hid_hw_stop]"
    unfolding Let_def c by (simp add: d e detect_fails_answer_def probe_success_answer_def)
  ultimately show ?thesis
    using a b d by (simp add: spec_handshake_calls_def)
qed

end
